theory Spec2Isabelle
  imports Complex_Main "HOL-Library.Sublist"
begin

section \<open>mbox_to_imap.py: uploading an MBOX archive to an IMAP folder\<close>

text \<open>
  The script talks to three things it does not implement: the operator's answers and the
  file system, the \<^verbatim>\<open>email\<close>/\<^verbatim>\<open>mailbox\<close> libraries, and the IMAP server behind
  \<^verbatim>\<open>imaplib\<close>. Each call the script makes on them is a field of the record \<open>env\<close>
  below, giving what that call returns or raises in the run at hand. The script's own
  control flow (the \<^verbatim>\<open>try\<close> blocks, \<^verbatim>\<open>sys.exit\<close>, the loop, the counters) is
  translated statement by statement. Only exceptions derived from \<^verbatim>\<open>Exception\<close> are
  values of \<open>exn\<close>; \<^verbatim>\<open>SystemExit\<close> is the control outcome \<open>SysExit\<close>, and
  asynchronous interrupts of the process are outside the model. \<^verbatim>\<open>print\<close> and
  \<^verbatim>\<open>time.sleep\<close> are events of the run and raise nothing; a printed line is recorded by
  its kind and its values, not by its text.
\<close>

subsection \<open>Data\<close>

type_synonym bytes = string

text \<open>The exception classes the handlers of \<^verbatim>\<open>main\<close> tell apart; each carries \<^verbatim>\<open>str(e)\<close>.\<close>

datatype exn =
    FileNotFoundError string
  | Gaierror string
  | IMAP4Error string
  | IndexError string
  | OtherException string

fun is_IMAP4_error :: "exn \<Rightarrow> bool" where
  "is_IMAP4_error (IMAP4Error _) = True"
| "is_IMAP4_error _ = False"

fun str_exn :: "exn \<Rightarrow> string" where
  "str_exn (FileNotFoundError s) = s"
| "str_exn (Gaierror s) = s"
| "str_exn (IMAP4Error s) = s"
| "str_exn (IndexError s) = s"
| "str_exn (OtherException s) = s"

text \<open>An \<^verbatim>\<open>imaplib\<close> reply: the status word and the data list.\<close>

type_synonym response = "string \<times> bytes list"

text \<open>The tuple returned by \<^verbatim>\<open>get_imap_details()\<close>.\<close>

record imap_details =
  imap_host :: string
  imap_port :: int
  use_ssl :: bool
  imap_user :: string
  imap_password :: string
  target_mailbox :: string

text \<open>
  A message of the archive: the bytes of the record as they stand in the MBOX file, and the
  two calls the script makes on the parsed message, \<^verbatim>\<open>msg.as_bytes()\<close> and
  \<^verbatim>\<open>msg.get('Date')\<close>. Either call may raise. \<^verbatim>\<open>as_bytes()\<close> is the \<^verbatim>\<open>email\<close>
  library writing the parsed message out again; what it returns need not be the stored
  bytes.
\<close>

record mbox_message =
  stored_bytes :: bytes
  as_bytes :: "exn + bytes"
  get_Date :: "exn + string option"

text \<open>The four arguments of \<^verbatim>\<open>server.append(mailbox, flags, date_time, message)\<close>.\<close>

record append_call =
  mailbox :: string
  flags :: "string option"
  date_time :: "string option"
  message :: bytes

datatype line =
    MboxNotFound
  | MissingDetails
  | StartingUpload | SourceMbox | TargetServer | TargetUser | TargetFolder | Connecting
  | ConnectedOK
  | LoggingIn
  | LoginFailedStatus "bytes list"
  | LoginOK
  | LoginFailed exn
  | LoginHint
  | CheckingFolder
  | FolderCreated
  | FolderExists
  | ErrorCreating exn
  | FolderExistsIgnored
  | OpeningMbox
  | ReadingMessages
  | Found nat
  | Uploaded nat nat
  | ErrorUploading nat nat "bytes list"
  | CriticalError nat nat exn
  | SummaryHeader
  | TotalLine nat
  | UploadedLine nat
  | ErrorsLine nat
  | HostUnresolved exn
  | ImapErrorOccurred exn
  | UnexpectedError exn
  | Traceback
  | LoggingOut
  | LogoutOK
  | LogoutError exn
  | ScriptFinished

text \<open>What a run does to the outside, in order.\<close>

datatype event =
    Print line
  | Connect bool string int
  | Login string string
  | Create string
  | Append append_call
  | Sleep rat
  | Logout

text \<open>
  The environment of one run. \<open>server_append\<close> takes the loop index next to the
  arguments: the reply to the same arguments may differ from one iteration to the next.
\<close>

record ('dt, 'tt, 'ts) env =
  mbox_isfile :: bool
  get_imap_details :: imap_details
  parsedate_to_datetime :: "string \<Rightarrow> exn + 'dt"
  timetuple :: "'dt \<Rightarrow> exn + 'tt"
  mktime :: "'tt \<Rightarrow> exn + 'ts"
  Time2Internaldate :: "'ts \<Rightarrow> exn + string"
  IMAP4_SSL :: "string \<Rightarrow> int \<Rightarrow> exn option"
  IMAP4 :: "string \<Rightarrow> int \<Rightarrow> exn option"
  server_login :: "string \<Rightarrow> string \<Rightarrow> exn + response"
  server_create :: "string \<Rightarrow> exn + response"
  mailbox_mbox :: "exn option"
  list_mbox :: "exn + mbox_message list"
  server_append :: "nat \<Rightarrow> append_call \<Rightarrow> exn + response"
  server_logout :: "exn option"

text \<open>How a block of statements ends: it falls through, raises, or calls \<^verbatim>\<open>sys.exit\<close>.\<close>

datatype ctl = Normal | Raise exn | SysExit nat

text \<open>The local variables of \<^verbatim>\<open>main\<close> that outlive the \<^verbatim>\<open>try\<close> body, the exit status
  of the process and the events of the run.\<close>

record run =
  exit_status :: nat
  server :: bool
  total_messages :: nat
  uploaded_count :: nat
  error_count :: nat
  events :: "event list"

subsection \<open>Configuration constants\<close>

definition UPLOAD_DELAY_SECONDS :: rat where
  "UPLOAD_DELAY_SECONDS = 1 / 10"

definition PROGRESS_INTERVAL :: nat where
  "PROGRESS_INTERVAL = 50"

subsection \<open>Python strings\<close>

text \<open>\<^verbatim>\<open>s.lower()\<close> on the ASCII letters.\<close>

definition lower_char :: "char \<Rightarrow> char" where
  "lower_char c =
     (let n = (of_char c :: nat) in if 65 \<le> n \<and> n \<le> 90 then char_of (n + 32) else c)"

definition lower :: "string \<Rightarrow> string" where
  "lower s = map lower_char s"

text \<open>\<^verbatim>\<open>w in s\<close> on strings: \<open>w\<close> occurs in \<open>s\<close> as a contiguous piece.\<close>

fun str_in :: "string \<Rightarrow> string \<Rightarrow> bool" where
  "str_in w [] = (w = [])"
| "str_in w (c # cs) = (prefix w (c # cs) \<or> str_in w cs)"

text \<open>\<^verbatim>\<open>str(b)\<close> of a bytes object is its \<^verbatim>\<open>repr\<close>.\<close>

definition hexdigit :: "nat \<Rightarrow> char" where
  "hexdigit n = ''0123456789abcdef'' ! n"

definition repr_byte :: "char \<Rightarrow> char \<Rightarrow> string" where
  "repr_byte q c =
     (let n = (of_char c :: nat) in
      if c = q \<or> c = CHR 0x5C then [CHR 0x5C, c]
      else if c = CHR 0x09 then [CHR 0x5C, CHR ''t'']
      else if c = CHR 0x0A then [CHR 0x5C, CHR ''n'']
      else if c = CHR 0x0D then [CHR 0x5C, CHR ''r'']
      else if n < 32 \<or> 127 \<le> n then [CHR 0x5C, CHR ''x'', hexdigit (n div 16), hexdigit (n mod 16)]
      else [c])"

definition str_bytes :: "bytes \<Rightarrow> string" where
  "str_bytes bs =
     (let q = (if CHR 0x27 \<in> set bs \<and> CHR 0x22 \<notin> set bs then CHR 0x22 else CHR 0x27)
      in [CHR ''b'', q] @ concat (map (repr_byte q) bs) @ [q])"

fun join :: "string \<Rightarrow> string list \<Rightarrow> string" where
  "join sep [] = []"
| "join sep [x] = x"
| "join sep (x # y # ys) = x @ sep @ join sep (y # ys)"

text \<open>\<^verbatim>\<open>str(data)\<close> of a list of bytes objects.\<close>

definition str_list :: "bytes list \<Rightarrow> string" where
  "str_list ds = ''['' @ join '', '' (map str_bytes ds) @ '']''"

text \<open>\<^verbatim>\<open>f'"{target_mailbox}"'\<close>\<close>

definition quoted :: "string \<Rightarrow> string" where
  "quoted s = [CHR 0x22] @ s @ [CHR 0x22]"

subsection \<open>get_message_date\<close>

text \<open>
  \<^verbatim>\<open>msg.get('Date')\<close> stands before the \<^verbatim>\<open>try\<close>, so what it raises leaves the
  function; \<^verbatim>\<open>not date_str\<close> holds of \<^verbatim>\<open>None\<close> and of the empty string; whatever the
  three conversions raise is turned into \<^verbatim>\<open>None\<close>.
\<close>

definition get_message_date :: "('dt, 'tt, 'ts) env \<Rightarrow> mbox_message \<Rightarrow> exn + string option" where
  "get_message_date env msg =
     (case get_Date msg of
        Inl x \<Rightarrow> Inl x
      | Inr date_str \<Rightarrow>
          (case date_str of
             None \<Rightarrow> Inr None
           | Some s \<Rightarrow>
               if s = [] then Inr None
               else
                 (case parsedate_to_datetime env s of
                    Inl _ \<Rightarrow> Inr None
                  | Inr dt \<Rightarrow>
                      (case timetuple env dt of
                         Inl _ \<Rightarrow> Inr None
                       | Inr tt \<Rightarrow>
                           (case mktime env tt of
                              Inl _ \<Rightarrow> Inr None
                            | Inr ts \<Rightarrow>
                                (case Time2Internaldate env ts of
                                   Inl _ \<Rightarrow> Inr None
                                 | Inr d \<Rightarrow> Inr (Some d)))))))"

subsection \<open>main, block by block\<close>

text \<open>Lines 93: \<^verbatim>\<open>all([imap_host, imap_port, imap_user, imap_password, target_mailbox])\<close>.\<close>

definition all_details :: "imap_details \<Rightarrow> bool" where
  "all_details d \<longleftrightarrow>
     imap_host d \<noteq> [] \<and> imap_port d \<noteq> 0 \<and> imap_user d \<noteq> [] \<and> imap_password d \<noteq> []
     \<and> target_mailbox d \<noteq> []"

definition banner :: "event list" where
  "banner = [Print StartingUpload, Print SourceMbox, Print TargetServer, Print TargetUser,
             Print TargetFolder, Print Connecting]"

text \<open>Lines 110-115.\<close>

definition connect :: "('dt, 'tt, 'ts) env \<Rightarrow> ctl \<times> event list" where
  "connect env =
     (let d = get_imap_details env;
          r = (if use_ssl d then IMAP4_SSL env (imap_host d) (imap_port d)
               else IMAP4 env (imap_host d) (imap_port d));
          call = Connect (use_ssl d) (imap_host d) (imap_port d)
      in case r of
           Some x \<Rightarrow> (Raise x, [call])
         | None \<Rightarrow> (Normal, [call, Print ConnectedOK]))"

text \<open>Lines 117-128. \<^verbatim>\<open>sys.exit\<close> inside the inner \<^verbatim>\<open>try\<close> raises \<^verbatim>\<open>SystemExit\<close>,
  which the \<^verbatim>\<open>except imaplib.IMAP4.error\<close> clause does not catch.\<close>

definition login_step :: "('dt, 'tt, 'ts) env \<Rightarrow> ctl \<times> event list" where
  "login_step env =
     (let d = get_imap_details env;
          pre = [Print LoggingIn, Login (imap_user d) (imap_password d)]
      in case server_login env (imap_user d) (imap_password d) of
           Inr (status, data) \<Rightarrow>
             if status \<noteq> ''OK'' then (SysExit 1, pre @ [Print (LoginFailedStatus data)])
             else (Normal, pre @ [Print LoginOK])
         | Inl e \<Rightarrow>
             if is_IMAP4_error e then (SysExit 1, pre @ [Print (LoginFailed e), Print LoginHint])
             else (Raise e, pre))"

text \<open>Lines 142-148: the handler of the inner \<^verbatim>\<open>try\<close> around \<^verbatim>\<open>server.create\<close>.\<close>

definition create_handler :: "exn \<Rightarrow> ctl \<times> event list" where
  "create_handler e =
     (if is_IMAP4_error e then
        (if \<not> str_in ''exists'' (lower (str_exn e)) then (SysExit 1, [Print (ErrorCreating e)])
         else (Normal, [Print FolderExistsIgnored]))
      else (Raise e, []))"

text \<open>Line 141: \<^verbatim>\<open>f"Failed to create/verify folder: {data}"\<close>.\<close>

definition create_failure_text :: "bytes list \<Rightarrow> string" where
  "create_failure_text data = ''Failed to create/verify folder: '' @ str_list data"

text \<open>Lines 130-148. \<^verbatim>\<open>data[0]\<close> on an empty list raises \<^verbatim>\<open>IndexError\<close>; the
  \<^verbatim>\<open>raise\<close> of line 141 is caught by the handler of the same \<^verbatim>\<open>try\<close>.\<close>

definition prepare_target_mailbox :: "('dt, 'tt, 'ts) env \<Rightarrow> ctl \<times> event list" where
  "prepare_target_mailbox env =
     (let name = quoted (target_mailbox (get_imap_details env));
          pre = [Print CheckingFolder, Create name]
      in case server_create env name of
           Inl e \<Rightarrow> (let (c, ev) = create_handler e in (c, pre @ ev))
         | Inr (status, data) \<Rightarrow>
             if status = ''OK'' then (Normal, pre @ [Print FolderCreated])
             else
               (case data of
                  [] \<Rightarrow>
                    (let (c, ev) = create_handler (IndexError ''list index out of range'')
                     in (c, pre @ ev))
                | d0 # _ \<Rightarrow>
                    if str_in ''exists'' (lower (str_bytes d0)) then (Normal, pre @ [Print FolderExists])
                    else
                      (let (c, ev) = create_handler (IMAP4Error (create_failure_text data))
                       in (c, pre @ ev))))"

text \<open>Lines 161-190: the body of the loop, on the counters \<open>(uploaded_count, error_count)\<close>.
  An exception skips the rest of the \<^verbatim>\<open>try\<close> block, \<^verbatim>\<open>time.sleep\<close> included.\<close>

definition loop_body ::
  "('dt, 'tt, 'ts) env \<Rightarrow> nat \<Rightarrow> nat \<Rightarrow> mbox_message \<Rightarrow> nat \<times> nat \<Rightarrow> (nat \<times> nat) \<times> event list" where
  "loop_body env tot i msg cnt =
     (let (uploaded, errors) = cnt;
          current_msg_num = i + 1;
          critical = (\<lambda>e. Print (CriticalError current_msg_num tot e))
      in case as_bytes msg of
           Inl e \<Rightarrow> ((uploaded, errors + 1), [critical e])
         | Inr message_bytes \<Rightarrow>
             (case get_message_date env msg of
                Inl e \<Rightarrow> ((uploaded, errors + 1), [critical e])
              | Inr message_date \<Rightarrow>
                  (let call = \<lparr>mailbox = quoted (target_mailbox (get_imap_details env)),
                               flags = None, date_time = message_date,
                               message = message_bytes\<rparr>
                   in case server_append env i call of
                        Inl e \<Rightarrow> ((uploaded, errors + 1), [Append call, critical e])
                      | Inr (status, data) \<Rightarrow>
                          if status = ''OK'' then
                            (let uploaded' = uploaded + 1 in
                             ((uploaded', errors),
                              [Append call]
                              @ (if uploaded' mod PROGRESS_INTERVAL = 0 \<or> current_msg_num = tot
                                 then [Print (Uploaded uploaded' tot)] else [])
                              @ [Sleep UPLOAD_DELAY_SECONDS]))
                          else
                            ((uploaded, errors + 1),
                             [Append call, Print (ErrorUploading current_msg_num tot data),
                              Sleep UPLOAD_DELAY_SECONDS]))))"

text \<open>Line 160: \<^verbatim>\<open>for i, msg in enumerate(message_list)\<close>.\<close>

fun upload_loop ::
  "('dt, 'tt, 'ts) env \<Rightarrow> nat \<Rightarrow> nat \<Rightarrow> mbox_message list \<Rightarrow> nat \<times> nat \<Rightarrow> (nat \<times> nat) \<times> event list" where
  "upload_loop env tot i [] cnt = (cnt, [])"
| "upload_loop env tot i (msg # rest) cnt =
     (let (cnt', ev) = loop_body env tot i msg cnt;
          (cnt'', evs) = upload_loop env tot (i + 1) rest cnt'
      in (cnt'', ev @ evs))"

text \<open>Lines 151-195: returns how the block ends, \<open>total_messages\<close>, the two counters and
  the events.\<close>

definition upload_messages :: "('dt, 'tt, 'ts) env \<Rightarrow> ctl \<times> nat \<times> nat \<times> nat \<times> event list" where
  "upload_messages env =
     (case mailbox_mbox env of
        Some e \<Rightarrow> (Raise e, 0, 0, 0, [Print OpeningMbox])
      | None \<Rightarrow>
          (case list_mbox env of
             Inl e \<Rightarrow> (Raise e, 0, 0, 0, [Print OpeningMbox, Print ReadingMessages])
           | Inr message_list \<Rightarrow>
               (let tot = length message_list;
                    ((uploaded, errors), evs) = upload_loop env tot 0 message_list (0, 0)
                in (Normal, tot, uploaded, errors,
                    [Print OpeningMbox, Print ReadingMessages, Print (Found tot)] @ evs
                    @ [Print SummaryHeader, Print (TotalLine tot), Print (UploadedLine uploaded),
                       Print (ErrorsLine errors)]))))"

text \<open>Lines 109-195: the body of the outer \<^verbatim>\<open>try\<close>. The exit status field is filled in by
  \<open>main\<close>.\<close>

definition try_body :: "('dt, 'tt, 'ts) env \<Rightarrow> ctl \<times> run" where
  "try_body env =
     (let (c1, ev1) = connect env in
      if c1 \<noteq> Normal then
        (c1, \<lparr>exit_status = 0, server = False, total_messages = 0, uploaded_count = 0,
              error_count = 0, events = ev1\<rparr>)
      else
        (let (c2, ev2) = login_step env in
         if c2 \<noteq> Normal then
           (c2, \<lparr>exit_status = 0, server = True, total_messages = 0, uploaded_count = 0,
                 error_count = 0, events = ev1 @ ev2\<rparr>)
         else
           (let (c3, ev3) = prepare_target_mailbox env in
            if c3 \<noteq> Normal then
              (c3, \<lparr>exit_status = 0, server = True, total_messages = 0, uploaded_count = 0,
                    error_count = 0, events = ev1 @ ev2 @ ev3\<rparr>)
            else
              (let (c4, tot, uploaded, errors, ev4) = upload_messages env in
               (c4, \<lparr>exit_status = 0, server = True, total_messages = tot,
                     uploaded_count = uploaded, error_count = errors,
                     events = ev1 @ ev2 @ ev3 @ ev4\<rparr>)))))"

text \<open>Lines 197-206: the handlers of the outer \<^verbatim>\<open>try\<close>. Each prints and falls through;
  \<^verbatim>\<open>SystemExit\<close> is not an \<^verbatim>\<open>Exception\<close> and passes.\<close>

definition handlers :: "ctl \<Rightarrow> ctl \<times> event list" where
  "handlers c =
     (case c of
        Raise e \<Rightarrow>
          (Normal,
           case e of
             FileNotFoundError _ \<Rightarrow> [Print MboxNotFound]
           | Gaierror _ \<Rightarrow> [Print (HostUnresolved e)]
           | IMAP4Error _ \<Rightarrow> [Print (ImapErrorOccurred e), Print Traceback]
           | _ \<Rightarrow> [Print (UnexpectedError e), Print Traceback])
      | _ \<Rightarrow> (c, []))"

text \<open>Lines 208-217.\<close>

definition finally_block :: "('dt, 'tt, 'ts) env \<Rightarrow> bool \<Rightarrow> event list" where
  "finally_block env srv =
     (if srv then
        [Print LoggingOut, Logout]
        @ (case server_logout env of
             None \<Rightarrow> [Print LogoutOK]
           | Some e \<Rightarrow> [Print (LogoutError e)])
      else [])
     @ [Print ScriptFinished]"

text \<open>The exit status of the process: the argument of a pending \<^verbatim>\<open>sys.exit\<close>, and 0
  when \<^verbatim>\<open>main\<close> returns.\<close>

fun status_of :: "ctl \<Rightarrow> nat" where
  "status_of (SysExit n) = n"
| "status_of _ = 0"

definition main :: "('dt, 'tt, 'ts) env \<Rightarrow> run" where
  "main env =
     (if \<not> mbox_isfile env then
        \<lparr>exit_status = 1, server = False, total_messages = 0, uploaded_count = 0,
         error_count = 0, events = [Print MboxNotFound]\<rparr>
      else if \<not> all_details (get_imap_details env) then
        \<lparr>exit_status = 1, server = False, total_messages = 0, uploaded_count = 0,
         error_count = 0, events = [Print MissingDetails]\<rparr>
      else
        (let (c, r) = try_body env;
             (c', hev) = handlers c
         in r\<lparr>exit_status := status_of c',
              events := banner @ events r @ hev @ finally_block env (server r)\<rparr>))"

subsection \<open>Observations on a run\<close>

text \<open>The \<^verbatim>\<open>server.append\<close> calls of a run, in the order they are issued.\<close>

fun append_calls :: "event list \<Rightarrow> append_call list" where
  "append_calls [] = []"
| "append_calls (Append c # evs) = c # append_calls evs"
| "append_calls (_ # evs) = append_calls evs"

text \<open>The upload summary of lines 192-195 is printed: the loop ran to its end.\<close>

definition completed :: "run \<Rightarrow> bool" where
  "completed r \<longleftrightarrow> Print SummaryHeader \<in> set (events r)"

text \<open>The counters \<open>(uploaded_count, error_count)\<close> after the first \<open>k\<close> iterations of
  the loop over \<open>msgs\<close>.\<close>

definition counters_after ::
  "('dt, 'tt, 'ts) env \<Rightarrow> nat \<Rightarrow> mbox_message list \<Rightarrow> nat \<Rightarrow> nat \<times> nat" where
  "counters_after env tot msgs k = fst (upload_loop env tot 0 (take k msgs) (0, 0))"

text \<open>The call a message leads to, when serialising it and looking up its date raise
  nothing.\<close>

definition append_call_of :: "('dt, 'tt, 'ts) env \<Rightarrow> mbox_message \<Rightarrow> append_call option" where
  "append_call_of env msg =
     (case as_bytes msg of
        Inl _ \<Rightarrow> None
      | Inr b \<Rightarrow>
          (case get_message_date env msg of
             Inl _ \<Rightarrow> None
           | Inr d \<Rightarrow>
               Some \<lparr>mailbox = quoted (target_mailbox (get_imap_details env)), flags = None,
                     date_time = d, message = b\<rparr>))"

text \<open>An append that counts as an error: the call raised, or the reply is not \<^verbatim>\<open>OK\<close>.\<close>

definition append_failed :: "exn + response \<Rightarrow> bool" where
  "append_failed r = (case r of Inl _ \<Rightarrow> True | Inr (status, _) \<Rightarrow> status \<noteq> ''OK'')"

text \<open>The appends and the delays of a run, in order.\<close>

fun pacing_trace :: "event list \<Rightarrow> event list" where
  "pacing_trace [] = []"
| "pacing_trace (Append c # evs) = Append c # pacing_trace evs"
| "pacing_trace (Sleep d # evs) = Sleep d # pacing_trace evs"
| "pacing_trace (_ # evs) = pacing_trace evs"

subsection \<open>Sample runs\<close>

definition demo_details :: imap_details where
  "demo_details =
     \<lparr>imap_host = ''imap.example.org'', imap_port = 993, use_ssl = True,
      imap_user = ''alice@example.org'', imap_password = ''secret'',
      target_mailbox = ''Imported_Mbox''\<rparr>"

definition dated_bytes :: bytes where
  "dated_bytes =
     ''Date: Mon, 01 Jan 2024 10:00:00 +0000'' @ [CHR 0x0A, CHR 0x0A] @ ''hi'' @ [CHR 0x0A]"

definition yesterday_bytes :: bytes where
  "yesterday_bytes = ''Date: yesterday'' @ [CHR 0x0A, CHR 0x0A] @ ''hi'' @ [CHR 0x0A]"

definition hello_bytes :: bytes where
  "hello_bytes = ''Subject: hello'' @ [CHR 0x0A, CHR 0x0A] @ ''hi'' @ [CHR 0x0A]"

definition msg_dated :: mbox_message where
  "msg_dated = \<lparr>stored_bytes = dated_bytes, as_bytes = Inr dated_bytes,
                 get_Date = Inr (Some ''Mon, 01 Jan 2024 10:00:00 +0000'')\<rparr>"

definition msg_baddate :: mbox_message where
  "msg_baddate = \<lparr>stored_bytes = yesterday_bytes, as_bytes = Inr yesterday_bytes,
                   get_Date = Inr (Some ''yesterday'')\<rparr>"

definition msg_nodate :: mbox_message where
  "msg_nodate = \<lparr>stored_bytes = hello_bytes, as_bytes = Inr hello_bytes, get_Date = Inr None\<rparr>"

text \<open>A form feed in a header line: the parser keeps what follows it in the header value,
  and writing the message out refuses the value.\<close>

definition msg_unserializable :: mbox_message where
  "msg_unserializable =
     \<lparr>stored_bytes = ''Subject: hello'' @ [CHR 0x0C] @ ''foo: bar'' @ [CHR 0x0A, CHR 0x0A]
                       @ ''hi'' @ [CHR 0x0A],
      as_bytes = Inl (OtherException ''header value appears to contain an embedded header''),
      get_Date = Inr None\<rparr>"

text \<open>A record stored with CRLF line ends: \<^verbatim>\<open>as_bytes()\<close> writes it with LF line ends.\<close>

definition crlf_stored :: bytes where
  "crlf_stored = ''Subject: hi'' @ [CHR 0x0D, CHR 0x0A, CHR 0x0D, CHR 0x0A]
                 @ ''body'' @ [CHR 0x0D, CHR 0x0A]"

definition crlf_written :: bytes where
  "crlf_written = ''Subject: hi'' @ [CHR 0x0A, CHR 0x0A] @ ''body'' @ [CHR 0x0A]"

definition msg_crlf :: mbox_message where
  "msg_crlf = \<lparr>stored_bytes = crlf_stored, as_bytes = Inr crlf_written, get_Date = Inr None\<rparr>"

definition demo_msgs :: "mbox_message list" where
  "demo_msgs = [msg_dated, msg_baddate, msg_unserializable]"

text \<open>Everything succeeds, except that the server rejects the second append.\<close>

definition demo_env :: "(unit, unit, unit) env" where
  "demo_env =
     \<lparr>mbox_isfile = True,
      get_imap_details = demo_details,
      parsedate_to_datetime =
        (\<lambda>s. if s = ''Mon, 01 Jan 2024 10:00:00 +0000'' then Inr ()
             else Inl (OtherException ''Invalid date value or format'')),
      timetuple = (\<lambda>_. Inr ()),
      mktime = (\<lambda>_. Inr ()),
      Time2Internaldate = (\<lambda>_. Inr (quoted ''01-Jan-2024 10:00:00 +0000'')),
      IMAP4_SSL = (\<lambda>_ _. None),
      IMAP4 = (\<lambda>_ _. None),
      server_login = (\<lambda>_ _. Inr (''OK'', [''LOGIN completed''])),
      server_create = (\<lambda>_. Inr (''OK'', [''CREATE completed''])),
      mailbox_mbox = None,
      list_mbox = Inr demo_msgs,
      server_append =
        (\<lambda>i _. if i = 1 then Inr (''NO'', [''message rejected''])
               else Inr (''OK'', [''APPEND completed''])),
      server_logout = None\<rparr>"

definition msg_badheader :: mbox_message where
  "msg_badheader = \<lparr>stored_bytes = hello_bytes, as_bytes = Inr hello_bytes,
                     get_Date = Inl (OtherException ''header lookup failed'')\<rparr>"

definition accept_all :: "nat \<Rightarrow> append_call \<Rightarrow> exn + response" where
  "accept_all i c = Inr (''OK'', [''APPEND completed''])"

text \<open>The first message cannot be serialised.\<close>

definition skip_env :: "(unit, unit, unit) env" where
  "skip_env = demo_env\<lparr>list_mbox := Inr [msg_unserializable, msg_nodate], server_append := accept_all\<rparr>"

text \<open>The archive holds one record, stored with CRLF line ends.\<close>

definition crlf_env :: "(unit, unit, unit) env" where
  "crlf_env = demo_env\<lparr>list_mbox := Inr [msg_crlf], server_append := accept_all\<rparr>"

text \<open>The first append call raises.\<close>

definition reset_env :: "(unit, unit, unit) env" where
  "reset_env = demo_env\<lparr>list_mbox := Inr [msg_nodate, msg_dated],
       server_append := (\<lambda>i c. if i = 0 then Inl (OtherException ''connection reset by peer'')
                               else accept_all i c)\<rparr>"

text \<open>The host name does not resolve.\<close>

definition gaierror_env :: "(unit, unit, unit) env" where
  "gaierror_env = demo_env\<lparr>IMAP4_SSL := (\<lambda>_ _. Some (Gaierror ''[Errno -2] Name or service not known''))\<rparr>"

text \<open>The folder is there already; the server refuses to create the folder.\<close>

definition exists_env :: "(unit, unit, unit) env" where
  "exists_env = demo_env\<lparr>server_create := (\<lambda>_. Inr (''NO'', [''[ALREADYEXISTS] Mailbox Exists'']))\<rparr>"

definition denied_env :: "(unit, unit, unit) env" where
  "denied_env = demo_env\<lparr>server_create := (\<lambda>_. Inr (''NO'', [''Permission denied'']))\<rparr>"

section \<open>Properties\<close>

subsection \<open>What each block of main emits\<close>

lemma append_calls_append: "append_calls (xs @ ys) = append_calls xs @ append_calls ys"
  by (induction xs rule: append_calls.induct) simp_all

lemma append_calls_connect: "append_calls (snd (connect env)) = []"
  by (simp add: connect_def Let_def split: option.splits)

lemma append_calls_login_step: "append_calls (snd (login_step env)) = []"
  by (simp add: login_step_def Let_def split: sum.splits prod.splits)

lemma append_calls_create_handler: "append_calls (snd (create_handler e)) = []"
  by (simp add: create_handler_def)

lemma append_calls_prepare: "append_calls (snd (prepare_target_mailbox env)) = []"
  by (simp add: prepare_target_mailbox_def Let_def case_prod_beta append_calls_append
      append_calls_create_handler split: sum.splits list.splits)

lemma append_calls_handlers: "append_calls (snd (handlers c)) = []"
  by (simp add: handlers_def split: ctl.splits exn.splits)

lemma append_calls_finally: "append_calls (finally_block env srv) = []"
  by (simp add: finally_block_def append_calls_append split: option.splits)

lemma append_calls_loop_body:
  "append_calls (snd (loop_body env tot i msg cnt)) =
     (case append_call_of env msg of None \<Rightarrow> [] | Some c \<Rightarrow> [c])"
  by (simp add: loop_body_def append_call_of_def Let_def append_calls_append
      split: sum.splits prod.splits)

lemma append_calls_upload_loop:
  "append_calls (snd (upload_loop env tot i msgs cnt)) = List.map_filter (append_call_of env) msgs"
proof (induction msgs arbitrary: i cnt)
  case Nil
  show ?case by (simp add: List.map_filter_simps)
next
  case (Cons m ms)
  obtain c1 e1 where b: "loop_body env tot i m cnt = (c1, e1)"
    by (cases "loop_body env tot i m cnt")
  obtain c2 e2 where r: "upload_loop env tot (i + 1) ms c1 = (c2, e2)"
    by (cases "upload_loop env tot (i + 1) ms c1")
  have "append_calls e1 = (case append_call_of env m of None \<Rightarrow> [] | Some c \<Rightarrow> [c])"
    using append_calls_loop_body [of env tot i m cnt] b by simp
  moreover have "append_calls e2 = List.map_filter (append_call_of env) ms"
    using Cons.IH [of "i + 1" c1] r by simp
  ultimately show ?case
    using b r by (simp add: append_calls_append List.map_filter_simps split: option.splits)
qed

lemma loop_body_counters:
  "fst (loop_body env tot i msg (u, e)) = (u + 1, e) \<or> fst (loop_body env tot i msg (u, e)) = (u, e + 1)"
  by (simp add: loop_body_def Let_def split: sum.splits prod.splits)

lemma summary_connect: "Print SummaryHeader \<notin> set (snd (connect env))"
  by (simp add: connect_def Let_def split: option.splits)

lemma summary_login_step: "Print SummaryHeader \<notin> set (snd (login_step env))"
  by (simp add: login_step_def Let_def split: sum.splits prod.splits)

lemma summary_create_handler: "Print SummaryHeader \<notin> set (snd (create_handler e))"
  by (simp add: create_handler_def)

lemma summary_prepare: "Print SummaryHeader \<notin> set (snd (prepare_target_mailbox env))"
  by (simp add: prepare_target_mailbox_def Let_def case_prod_beta summary_create_handler
      split: sum.splits list.splits)

lemma summary_handlers: "Print SummaryHeader \<notin> set (snd (handlers c))"
  by (simp add: handlers_def split: ctl.splits exn.splits)

lemma summary_finally: "Print SummaryHeader \<notin> set (finally_block env srv)"
  by (simp add: finally_block_def split: option.splits)

lemma summary_banner: "Print SummaryHeader \<notin> set banner"
  by (simp add: banner_def)

lemma append_calls_banner: "append_calls banner = []"
  by (simp add: banner_def)

lemma summary_loop_body: "Print SummaryHeader \<notin> set (snd (loop_body env tot i msg cnt))"
  by (simp add: loop_body_def Let_def split: sum.splits prod.splits)

lemma summary_upload_loop: "Print SummaryHeader \<notin> set (snd (upload_loop env tot i msgs cnt))"
proof (induction msgs arbitrary: i cnt)
  case Nil
  show ?case by simp
next
  case (Cons m ms)
  show ?case
    by (simp add: case_prod_beta summary_loop_body Cons.IH)
qed

lemma handlers_status: "status_of (fst (handlers c)) = status_of c"
  by (simp add: handlers_def split: ctl.splits)

lemma try_body_Normal:
  assumes "fst (try_body env) = Normal"
  shows "\<exists>msgs pre. list_mbox env = Inr msgs
           \<and> server (snd (try_body env))
           \<and> total_messages (snd (try_body env)) = length msgs
           \<and> (uploaded_count (snd (try_body env)), error_count (snd (try_body env)))
               = fst (upload_loop env (length msgs) 0 msgs (0, 0))
           \<and> events (snd (try_body env)) = pre @ snd (upload_loop env (length msgs) 0 msgs (0, 0))
               @ [Print SummaryHeader, Print (TotalLine (length msgs)),
                  Print (UploadedLine (uploaded_count (snd (try_body env)))),
                  Print (ErrorsLine (error_count (snd (try_body env))))]
           \<and> append_calls pre = []"
  using assms append_calls_connect [of env] append_calls_login_step [of env] append_calls_prepare [of env]
  by (auto simp add: try_body_def upload_messages_def Let_def append_calls_append
      split: prod.splits if_splits option.splits sum.splits)

lemma try_body_not_Normal:
  assumes "fst (try_body env) \<noteq> Normal"
  shows "total_messages (snd (try_body env)) = 0 \<and> uploaded_count (snd (try_body env)) = 0
         \<and> error_count (snd (try_body env)) = 0
         \<and> append_calls (events (snd (try_body env))) = []
         \<and> Print SummaryHeader \<notin> set (events (snd (try_body env)))"
  using assms append_calls_connect [of env] append_calls_login_step [of env] append_calls_prepare [of env]
    summary_connect [of env] summary_login_step [of env] summary_prepare [of env]
  by (auto simp add: try_body_def upload_messages_def Let_def append_calls_append
      split: prod.splits if_splits option.splits sum.splits)

subsection \<open>The shape of a whole run\<close>

lemma main_completed_iff:
  "completed (main env) \<longleftrightarrow>
     mbox_isfile env \<and> all_details (get_imap_details env) \<and> fst (try_body env) = Normal"
proof (cases "fst (try_body env) = Normal")
  case True
  from try_body_Normal [OF True] obtain msgs pre where
    "events (snd (try_body env)) = pre @ snd (upload_loop env (length msgs) 0 msgs (0, 0))
               @ [Print SummaryHeader, Print (TotalLine (length msgs)),
                  Print (UploadedLine (uploaded_count (snd (try_body env)))),
                  Print (ErrorsLine (error_count (snd (try_body env))))]"
    by blast
  then have "Print SummaryHeader \<in> set (events (snd (try_body env)))" by simp
  with True show ?thesis
    by (simp add: completed_def main_def case_prod_beta Let_def)
next
  case False
  with try_body_not_Normal [OF False] show ?thesis
    by (simp add: completed_def main_def case_prod_beta Let_def summary_banner summary_handlers
        summary_finally)
qed

lemma main_completed:
  assumes "completed (main env)"
  shows "\<exists>msgs. list_mbox env = Inr msgs
           \<and> total_messages (main env) = length msgs
           \<and> (uploaded_count (main env), error_count (main env))
               = fst (upload_loop env (length msgs) 0 msgs (0, 0))
           \<and> append_calls (events (main env))
               = append_calls (snd (upload_loop env (length msgs) 0 msgs (0, 0)))
           \<and> exit_status (main env) = 0"
proof -
  from assms have f: "mbox_isfile env" "all_details (get_imap_details env)"
    and n: "fst (try_body env) = Normal"
    by (simp_all add: main_completed_iff)
  from try_body_Normal [OF n] obtain msgs pre where
    m: "list_mbox env = Inr msgs"
       "total_messages (snd (try_body env)) = length msgs"
       "(uploaded_count (snd (try_body env)), error_count (snd (try_body env)))
               = fst (upload_loop env (length msgs) 0 msgs (0, 0))"
       "events (snd (try_body env)) = pre @ snd (upload_loop env (length msgs) 0 msgs (0, 0))
               @ [Print SummaryHeader, Print (TotalLine (length msgs)),
                  Print (UploadedLine (uploaded_count (snd (try_body env)))),
                  Print (ErrorsLine (error_count (snd (try_body env))))]"
       "append_calls pre = []"
    by blast
  have "append_calls (events (main env))
          = append_calls (snd (upload_loop env (length msgs) 0 msgs (0, 0)))"
    using f n m(4,5)
    by (simp add: main_def case_prod_beta Let_def append_calls_append append_calls_banner
        append_calls_handlers append_calls_finally)
  moreover have "exit_status (main env) = 0"
    using f n by (simp add: main_def case_prod_beta Let_def handlers_def)
  moreover have "total_messages (main env) = length msgs"
    using f m(2) by (simp add: main_def case_prod_beta Let_def)
  moreover have "(uploaded_count (main env), error_count (main env))
               = fst (upload_loop env (length msgs) 0 msgs (0, 0))"
    using f m(3) by (simp add: main_def case_prod_beta Let_def)
  ultimately show ?thesis using m(1) by blast
qed

lemma main_not_completed:
  assumes "\<not> completed (main env)"
  shows "total_messages (main env) = 0 \<and> uploaded_count (main env) = 0
         \<and> error_count (main env) = 0 \<and> append_calls (events (main env)) = []"
proof (cases "mbox_isfile env \<and> all_details (get_imap_details env)")
  case True
  with assms have "fst (try_body env) \<noteq> Normal" by (simp add: main_completed_iff)
  from try_body_not_Normal [OF this] True show ?thesis
    by (simp add: main_def case_prod_beta Let_def append_calls_append append_calls_banner
        append_calls_handlers append_calls_finally)
next
  case False
  then show ?thesis by (auto simp add: main_def)
qed

subsection \<open>The counters\<close>

lemma upload_loop_append:
  "upload_loop env tot i (xs @ ys) cnt =
     (fst (upload_loop env tot (i + length xs) ys (fst (upload_loop env tot i xs cnt))),
      snd (upload_loop env tot i xs cnt)
      @ snd (upload_loop env tot (i + length xs) ys (fst (upload_loop env tot i xs cnt))))"
  by (induction xs arbitrary: i cnt) (simp_all add: case_prod_beta)

lemma upload_loop_counters:
  "fst (fst (upload_loop env tot i msgs (u, e))) \<ge> u
   \<and> snd (fst (upload_loop env tot i msgs (u, e))) \<ge> e
   \<and> fst (fst (upload_loop env tot i msgs (u, e))) + snd (fst (upload_loop env tot i msgs (u, e)))
       = u + e + length msgs"
proof (induction msgs arbitrary: i u e)
  case Nil
  show ?case by simp
next
  case (Cons m ms)
  from loop_body_counters [of env tot i m u e] show ?case
  proof
    assume h: "fst (loop_body env tot i m (u, e)) = (u + 1, e)"
    from Cons.IH [where i = "i + 1" and u = "u + 1" and e = e] h show ?thesis
      by (simp add: case_prod_beta)
  next
    assume h: "fst (loop_body env tot i m (u, e)) = (u, e + 1)"
    from Cons.IH [where i = "i + 1" and u = u and e = "e + 1"] h show ?thesis
      by (simp add: case_prod_beta)
  qed
qed

lemma counters_after_continue:
  assumes "j \<le> k"
  shows "counters_after env tot msgs k
           = fst (upload_loop env tot j (drop j (take k msgs)) (counters_after env tot msgs j))"
proof -
  have t: "take k msgs = take j msgs @ drop j (take k msgs)"
    using assms by (metis append_take_drop_id min.absorb1 take_take)
  show ?thesis
  proof (cases "j \<le> length msgs")
    case True
    then have l: "length (take j msgs) = j" by simp
    have "upload_loop env tot 0 (take k msgs) (0, 0)
            = upload_loop env tot 0 (take j msgs @ drop j (take k msgs)) (0, 0)"
      using t by simp
    then show ?thesis
      unfolding counters_after_def upload_loop_append l by simp
  next
    case False
    then show ?thesis using assms by (simp add: counters_after_def)
  qed
qed

lemma counters_after_sum:
  "k \<le> length msgs \<Longrightarrow>
     fst (counters_after env tot msgs k) + snd (counters_after env tot msgs k) = k"
  using upload_loop_counters [where u = 0 and e = 0 and i = 0 and msgs = "take k msgs" and env = env and tot = tot]
  by (simp add: counters_after_def)

lemma counters_after_mono:
  assumes "j \<le> k"
  shows "fst (counters_after env tot msgs j) \<le> fst (counters_after env tot msgs k)
         \<and> snd (counters_after env tot msgs j) \<le> snd (counters_after env tot msgs k)"
  using upload_loop_counters [where u = "fst (counters_after env tot msgs j)" and env = env
      and tot = tot and i = j and msgs = "drop j (take k msgs)"
      and e = "snd (counters_after env tot msgs j)"]
    counters_after_continue [OF assms, of env tot msgs]
  by simp

lemma loop_from_counters_after:
  assumes "k \<le> length msgs"
  shows "upload_loop env tot 0 msgs (0, 0)
           = (fst (upload_loop env tot k (drop k msgs) (counters_after env tot msgs k)),
              snd (upload_loop env tot 0 (take k msgs) (0, 0))
              @ snd (upload_loop env tot k (drop k msgs) (counters_after env tot msgs k)))"
proof -
  have "upload_loop env tot 0 msgs (0, 0) = upload_loop env tot 0 (take k msgs @ drop k msgs) (0, 0)"
    by simp
  also have "\<dots> = (fst (upload_loop env tot k (drop k msgs) (counters_after env tot msgs k)),
              snd (upload_loop env tot 0 (take k msgs) (0, 0))
              @ snd (upload_loop env tot k (drop k msgs) (counters_after env tot msgs k)))"
    unfolding upload_loop_append counters_after_def using assms by simp
  finally show ?thesis .
qed

text \<open>
  Claim C1. In every run \<open>uploaded_count + error_count \<le> total_messages\<close>, and they are
  equal when the loop has run to its end (the summary is printed); then \<open>total_messages\<close>
  is the length of the archive and the counters are those after its last iteration. Over
  the loop both counters never decrease: after \<open>j \<le> k\<close> iterations they are at most what
  they are after \<open>k\<close>; after \<open>k\<close> iterations their sum is \<open>k\<close>, hence at most the length
  of the archive; and the loop goes on from the counters after \<open>k\<close> iterations.
\<close>

theorem counters_invariant:
  "uploaded_count (main env) + error_count (main env) \<le> total_messages (main env)
   \<and> (completed (main env) \<longrightarrow>
        uploaded_count (main env) + error_count (main env) = total_messages (main env))
   \<and> (completed (main env) \<and> list_mbox env = Inr msgs \<longrightarrow>
        total_messages (main env) = length msgs
        \<and> (uploaded_count (main env), error_count (main env))
            = counters_after env (length msgs) msgs (length msgs))
   \<and> (j \<le> k \<and> k \<le> length msgs \<longrightarrow>
        fst (counters_after env tot msgs j) \<le> fst (counters_after env tot msgs k)
        \<and> snd (counters_after env tot msgs j) \<le> snd (counters_after env tot msgs k)
        \<and> fst (counters_after env tot msgs k) + snd (counters_after env tot msgs k) = k
        \<and> fst (counters_after env tot msgs k) + snd (counters_after env tot msgs k) \<le> length msgs
        \<and> fst (upload_loop env tot 0 msgs (0, 0))
            = fst (upload_loop env tot k (drop k msgs) (counters_after env tot msgs k)))"
proof -
  have a: "uploaded_count (main env) + error_count (main env) = total_messages (main env)"
  proof (cases "completed (main env)")
    case True
    from main_completed [OF True] obtain ms where
      m: "total_messages (main env) = length ms"
         "(uploaded_count (main env), error_count (main env))
            = fst (upload_loop env (length ms) 0 ms (0, 0))"
      by blast
    from upload_loop_counters [where u = 0 and e = 0 and i = 0 and msgs = ms and env = env
        and tot = "length ms"] m show ?thesis
      by (metis add_0 fst_conv snd_conv)
  next
    case False
    from main_not_completed [OF False] show ?thesis by simp
  qed
  have b: "total_messages (main env) = length msgs
        \<and> (uploaded_count (main env), error_count (main env))
            = counters_after env (length msgs) msgs (length msgs)"
    if "completed (main env)" "list_mbox env = Inr msgs"
    using main_completed [OF that(1)] that(2) by (auto simp add: counters_after_def)
  have c: "fst (counters_after env tot msgs j) \<le> fst (counters_after env tot msgs k)
        \<and> snd (counters_after env tot msgs j) \<le> snd (counters_after env tot msgs k)
        \<and> fst (counters_after env tot msgs k) + snd (counters_after env tot msgs k) = k
        \<and> fst (counters_after env tot msgs k) + snd (counters_after env tot msgs k) \<le> length msgs
        \<and> fst (upload_loop env tot 0 msgs (0, 0))
            = fst (upload_loop env tot k (drop k msgs) (counters_after env tot msgs k))"
    if "j \<le> k" "k \<le> length msgs"
    using counters_after_mono [OF that(1), of env tot msgs] counters_after_sum [OF that(2), of env tot]
      loop_from_counters_after [OF that(2), of env tot] that(2)
    by simp
  from a b c show ?thesis by simp
qed

theorem counters_invariant_witness:
  "completed (main demo_env) \<and> list_mbox demo_env = Inr demo_msgs
   \<and> (1::nat) \<le> 2 \<and> 2 \<le> length demo_msgs
   \<and> uploaded_count (main demo_env) + error_count (main demo_env) = total_messages (main demo_env)
   \<and> total_messages (main demo_env) = length demo_msgs
   \<and> (uploaded_count (main demo_env), error_count (main demo_env))
       = counters_after demo_env (length demo_msgs) demo_msgs (length demo_msgs)
   \<and> fst (counters_after demo_env 3 demo_msgs 1) \<le> fst (counters_after demo_env 3 demo_msgs 2)
   \<and> snd (counters_after demo_env 3 demo_msgs 1) \<le> snd (counters_after demo_env 3 demo_msgs 2)
   \<and> fst (counters_after demo_env 3 demo_msgs 2) + snd (counters_after demo_env 3 demo_msgs 2) = 2"
proof -
  have h1: "completed (main demo_env)" by code_simp
  have h2: "list_mbox demo_env = Inr demo_msgs" by (simp add: demo_env_def)
  have h3: "(1::nat) \<le> 2 \<and> 2 \<le> length demo_msgs" by (simp add: demo_msgs_def)
  from counters_invariant [of demo_env demo_msgs 1 2 3] h1 h2 h3 show ?thesis by simp
qed

subsection \<open>Failures of single messages\<close>

lemma try_body_ctl_server_append:
  "fst (try_body (env\<lparr>server_append := f\<rparr>)) = fst (try_body env)"
  by (simp add: try_body_def connect_def login_step_def prepare_target_mailbox_def
      upload_messages_def Let_def case_prod_beta split: option.splits sum.splits)

lemma main_exit_status:
  "exit_status (main env) =
     (if mbox_isfile env \<and> all_details (get_imap_details env) then status_of (fst (try_body env))
      else 1)"
  by (simp add: main_def case_prod_beta Let_def handlers_status)

lemma loop_body_failed:
  assumes "as_bytes msg = Inr b" "get_message_date env msg = Inr d"
    and "append_failed (server_append env i
           \<lparr>mailbox = quoted (target_mailbox (get_imap_details env)), flags = None,
            date_time = d, message = b\<rparr>)"
  shows "fst (loop_body env tot i msg (u, e)) = (u, e + 1)"
  using assms by (simp add: loop_body_def append_failed_def Let_def split: sum.splits prod.splits)

text \<open>
  Claim C2. When the append for a message fails (the call raises, or the reply is not
  \<^verbatim>\<open>OK\<close>), \<open>error_count\<close> grows by one and \<open>uploaded_count\<close> stays; the loop goes on
  with the next message from these counters, and after the failed call it issues the append
  of every later message that can be prepared. What the append calls return or raise
  changes neither the exit status of the run nor whether the loop runs to its end.
\<close>

theorem item_failure_continues:
  assumes "as_bytes msg = Inr b" and "get_message_date env msg = Inr d"
    and "call = \<lparr>mailbox = quoted (target_mailbox (get_imap_details env)), flags = None,
                  date_time = d, message = b\<rparr>"
    and "append_failed (server_append env i call)"
  shows "fst (loop_body env tot i msg (u, e)) = (u, e + 1)
    \<and> upload_loop env tot i (msg # rest) (u, e)
        = (fst (upload_loop env tot (i + 1) rest (u, e + 1)),
           snd (loop_body env tot i msg (u, e)) @ snd (upload_loop env tot (i + 1) rest (u, e + 1)))
    \<and> append_calls (snd (upload_loop env tot i (msg # rest) (u, e)))
        = call # List.map_filter (append_call_of env) rest
    \<and> exit_status (main (env\<lparr>server_append := f\<rparr>)) = exit_status (main env)
    \<and> completed (main (env\<lparr>server_append := f\<rparr>)) = completed (main env)"
proof -
  have a: "fst (loop_body env tot i msg (u, e)) = (u, e + 1)"
    using assms loop_body_failed by blast
  have b: "upload_loop env tot i (msg # rest) (u, e)
        = (fst (upload_loop env tot (i + 1) rest (u, e + 1)),
           snd (loop_body env tot i msg (u, e)) @ snd (upload_loop env tot (i + 1) rest (u, e + 1)))"
    using a by (simp add: case_prod_beta)
  have "append_call_of env msg = Some call"
    using assms(1-3) by (simp add: append_call_of_def)
  then have c: "append_calls (snd (upload_loop env tot i (msg # rest) (u, e)))
        = call # List.map_filter (append_call_of env) rest"
    unfolding append_calls_upload_loop by (simp add: List.map_filter_simps)
  have d: "exit_status (main (env\<lparr>server_append := f\<rparr>)) = exit_status (main env)"
    by (simp add: main_exit_status try_body_ctl_server_append)
  have e: "completed (main (env\<lparr>server_append := f\<rparr>)) = completed (main env)"
    by (simp add: main_completed_iff try_body_ctl_server_append)
  from a b c d e show ?thesis by blast
qed

theorem item_failure_continues_witness:
  "as_bytes msg_baddate = Inr yesterday_bytes
   \<and> get_message_date demo_env msg_baddate = Inr None
   \<and> append_failed (server_append demo_env 1
         \<lparr>mailbox = quoted ''Imported_Mbox'', flags = None, date_time = None,
          message = yesterday_bytes\<rparr>)
   \<and> fst (loop_body demo_env 3 1 msg_baddate (1, 0)) = (1, 1)
   \<and> append_calls (snd (upload_loop demo_env 3 1 [msg_baddate, msg_nodate] (1, 0)))
       = [\<lparr>mailbox = quoted ''Imported_Mbox'', flags = None, date_time = None,
           message = yesterday_bytes\<rparr>,
          \<lparr>mailbox = quoted ''Imported_Mbox'', flags = None, date_time = None,
           message = hello_bytes\<rparr>]"
proof -
  let ?call = "\<lparr>mailbox = quoted ''Imported_Mbox'', flags = None, date_time = None,
                 message = yesterday_bytes\<rparr>"
  have h1: "as_bytes msg_baddate = Inr yesterday_bytes" by (simp add: msg_baddate_def)
  have h2: "get_message_date demo_env msg_baddate = Inr None" by code_simp
  have h3: "?call = \<lparr>mailbox = quoted (target_mailbox (get_imap_details demo_env)), flags = None,
                  date_time = None, message = yesterday_bytes\<rparr>"
    by (simp add: demo_env_def demo_details_def)
  have h4: "append_failed (server_append demo_env 1 ?call)" by code_simp
  have r: "List.map_filter (append_call_of demo_env) [msg_nodate]
             = [\<lparr>mailbox = quoted ''Imported_Mbox'', flags = None, date_time = None,
                 message = hello_bytes\<rparr>]"
    by code_simp
  note t = item_failure_continues [OF h1 h2 h3 h4, of 3 1 0 "[msg_nodate]" "server_append demo_env"]
  from t [THEN conjunct1] have c1: "fst (loop_body demo_env 3 1 msg_baddate (1, 0)) = (1, 1)"
    by simp
  from t [THEN conjunct2, THEN conjunct2, THEN conjunct1] r
  have c2: "append_calls (snd (upload_loop demo_env 3 1 [msg_baddate, msg_nodate] (1, 0)))
       = [?call, \<lparr>mailbox = quoted ''Imported_Mbox'', flags = None, date_time = None,
           message = hello_bytes\<rparr>]"
    by (simp del: upload_loop.simps)
  from h1 h2 h4 c1 c2 show ?thesis by blast
qed

text \<open>
  Claim C10. When \<^verbatim>\<open>msg.as_bytes()\<close> raises, or \<^verbatim>\<open>get_message_date(msg)\<close> raises
  after it, the loop body counts one error, prints the error and issues no append; the loop
  goes on with the next message. \<^verbatim>\<open>get_message_date\<close> raises only what
  \<^verbatim>\<open>msg.get('Date')\<close> raises: what the date conversions raise is caught inside it.
\<close>

theorem preparation_failure_contained:
  assumes "as_bytes msg = Inl x \<or> (as_bytes msg = Inr b \<and> get_message_date env msg = Inl x)"
  shows "loop_body env tot i msg (u, e) = ((u, e + 1), [Print (CriticalError (i + 1) tot x)])
    \<and> upload_loop env tot i (msg # rest) (u, e)
        = (fst (upload_loop env tot (i + 1) rest (u, e + 1)),
           Print (CriticalError (i + 1) tot x) # snd (upload_loop env tot (i + 1) rest (u, e + 1)))
    \<and> (get_message_date env msg = Inl x \<longleftrightarrow> get_Date msg = Inl x)"
proof -
  have a: "loop_body env tot i msg (u, e) = ((u, e + 1), [Print (CriticalError (i + 1) tot x)])"
    using assms by (auto simp add: loop_body_def Let_def)
  then have b: "upload_loop env tot i (msg # rest) (u, e)
        = (fst (upload_loop env tot (i + 1) rest (u, e + 1)),
           Print (CriticalError (i + 1) tot x) # snd (upload_loop env tot (i + 1) rest (u, e + 1)))"
    by (simp add: case_prod_beta)
  have c: "get_message_date env msg = Inl x \<longleftrightarrow> get_Date msg = Inl x"
    by (simp add: get_message_date_def split: sum.splits option.splits)
  from a b c show ?thesis by blast
qed

theorem preparation_failure_contained_witness:
  "as_bytes msg_unserializable = Inl (OtherException ''header value appears to contain an embedded header'')
   \<and> loop_body demo_env 3 2 msg_unserializable (1, 1)
       = ((1, 2), [Print (CriticalError 3 3 (OtherException ''header value appears to contain an embedded header''))])
   \<and> as_bytes msg_badheader = Inr hello_bytes
   \<and> get_message_date demo_env msg_badheader = Inl (OtherException ''header lookup failed'')
   \<and> loop_body demo_env 3 0 msg_badheader (0, 0)
       = ((0, 1), [Print (CriticalError 1 3 (OtherException ''header lookup failed''))])"
proof -
  have h1: "as_bytes msg_unserializable = Inl (OtherException ''header value appears to contain an embedded header'')"
    by (simp add: msg_unserializable_def)
  have h2: "as_bytes msg_badheader = Inr hello_bytes
            \<and> get_message_date demo_env msg_badheader = Inl (OtherException ''header lookup failed'')"
    by (simp add: msg_badheader_def get_message_date_def)
  from preparation_failure_contained [of msg_unserializable _ "''''" demo_env 3 2 1 1 "[]"]
    preparation_failure_contained [of msg_badheader _ "hello_bytes" demo_env 3 0 0 0 "[]"]
    h1 h2
  show ?thesis by simp
qed

text \<open>
  Claim C3. When the \<^verbatim>\<open>Date\<close> header is absent, or \<^verbatim>\<open>parsedate_to_datetime\<close> raises
  on its value, \<^verbatim>\<open>get_message_date\<close> returns \<^verbatim>\<open>None\<close> and raises nothing. The message,
  once serialised, is appended with no flags and no date, and it is counted as an error only
  if that append fails.
\<close>

theorem unparseable_date_still_uploaded:
  assumes "get_Date msg = Inr None
           \<or> (get_Date msg = Inr (Some s) \<and> parsedate_to_datetime env s = Inl x)"
  shows "get_message_date env msg = Inr None
    \<and> (as_bytes msg = Inr b \<longrightarrow>
         append_calls (snd (loop_body env tot i msg (u, e)))
           = [\<lparr>mailbox = quoted (target_mailbox (get_imap_details env)), flags = None,
               date_time = None, message = b\<rparr>]
         \<and> fst (loop_body env tot i msg (u, e))
           = (if append_failed (server_append env i
                    \<lparr>mailbox = quoted (target_mailbox (get_imap_details env)), flags = None,
                     date_time = None, message = b\<rparr>)
              then (u, e + 1) else (u + 1, e)))"
proof -
  have a: "get_message_date env msg = Inr None"
    using assms by (auto simp add: get_message_date_def)
  have b: "append_calls (snd (loop_body env tot i msg (u, e)))
           = [\<lparr>mailbox = quoted (target_mailbox (get_imap_details env)), flags = None,
               date_time = None, message = b\<rparr>]" if "as_bytes msg = Inr b"
    using a that by (simp add: append_calls_loop_body append_call_of_def)
  have c: "fst (loop_body env tot i msg (u, e))
           = (if append_failed (server_append env i
                    \<lparr>mailbox = quoted (target_mailbox (get_imap_details env)), flags = None,
                     date_time = None, message = b\<rparr>)
              then (u, e + 1) else (u + 1, e))" if "as_bytes msg = Inr b"
    using a that by (simp add: loop_body_def append_failed_def Let_def split: sum.splits prod.splits)
  from a b c show ?thesis by blast
qed

theorem unparseable_date_still_uploaded_witness:
  "get_Date msg_baddate = Inr (Some ''yesterday'')
   \<and> parsedate_to_datetime demo_env ''yesterday'' = Inl (OtherException ''Invalid date value or format'')
   \<and> as_bytes msg_baddate = Inr yesterday_bytes
   \<and> get_message_date demo_env msg_baddate = Inr None
   \<and> append_calls (snd (loop_body demo_env 3 0 msg_baddate (0, 0)))
       = [\<lparr>mailbox = quoted ''Imported_Mbox'', flags = None, date_time = None,
           message = yesterday_bytes\<rparr>]
   \<and> fst (loop_body demo_env 3 0 msg_baddate (0, 0)) = (1, 0)"
proof -
  have h1: "get_Date msg_baddate = Inr (Some ''yesterday'')
            \<and> parsedate_to_datetime demo_env ''yesterday''
                = Inl (OtherException ''Invalid date value or format'')"
    by (simp add: msg_baddate_def demo_env_def)
  have h2: "as_bytes msg_baddate = Inr yesterday_bytes" by (simp add: msg_baddate_def)
  have h3: "target_mailbox (get_imap_details demo_env) = ''Imported_Mbox''"
    by (simp add: demo_env_def demo_details_def)
  have h4: "\<not> append_failed (server_append demo_env 0
         \<lparr>mailbox = quoted ''Imported_Mbox'', flags = None, date_time = None,
          message = yesterday_bytes\<rparr>)" by code_simp
  from unparseable_date_still_uploaded [of msg_baddate "''yesterday''" demo_env _
      "yesterday_bytes" 3 0 0 0] h1 h2 h3 h4
  show ?thesis by simp
qed

subsection \<open>Preparing the target folder\<close>

lemma str_in_sublist: "str_in w s \<longleftrightarrow> sublist w s"
  by (induction s) (auto simp add: sublist_Cons_right)

lemma str_in_lower_append:
  "str_in w (lower s) \<Longrightarrow> str_in w (lower (p @ s @ q))"
  unfolding str_in_sublist lower_def
  by (metis map_append sublist_appendI sublist_order.order_trans)

lemma join_Cons: "\<exists>q. join sep (x # xs) = x @ q"
  by (cases xs) simp_all

lemma str_list_Cons: "\<exists>q. str_list (d # ds) = ''['' @ str_bytes d @ q"
  using join_Cons [of "'', ''" "str_bytes d" "map str_bytes ds"]
  by (auto simp add: str_list_def)

lemma str_in_first_reply:
  assumes "str_in w (lower (str_bytes d))"
  shows "str_in w (lower (str_list (d # ds)))"
proof -
  obtain q where "str_list (d # ds) = ''['' @ str_bytes d @ q"
    using str_list_Cons by blast
  with str_in_lower_append [OF assms, of "''[''" q] show ?thesis by simp
qed

lemma str_in_raised_text:
  "str_in ''exists'' (lower (''Failed to create/verify folder: '' @ s))
     \<longleftrightarrow> str_in ''exists'' (lower s)"
  by (simp add: lower_def lower_char_def)

lemma create_handler_IMAP4:
  "fst (create_handler (IMAP4Error txt))
     = (if str_in ''exists'' (lower txt) then Normal else SysExit 1)"
  by (simp add: create_handler_def)

lemma create_handler_raised:
  "fst (create_handler (IMAP4Error (create_failure_text data)))
     = (if str_in ''exists'' (lower (str_list data)) then Normal else SysExit 1)"
  unfolding create_handler_IMAP4 create_failure_text_def str_in_raised_text ..

lemma prepare_reply:
  assumes "server_create env (quoted (target_mailbox (get_imap_details env))) = Inr (status, d # ds)"
  shows "fst (prepare_target_mailbox env)
           = (if status = ''OK'' \<or> str_in ''exists'' (lower (str_list (d # ds))) then Normal
              else SysExit 1)"
  using assms str_in_first_reply [of "''exists''" d ds]
  by (simp add: prepare_target_mailbox_def Let_def case_prod_beta create_handler_raised)

lemma prepare_raised:
  assumes "server_create env (quoted (target_mailbox (get_imap_details env))) = Inl (IMAP4Error txt)"
  shows "fst (prepare_target_mailbox env)
           = (if str_in ''exists'' (lower txt) then Normal else SysExit 1)"
  using assms
  by (simp add: prepare_target_mailbox_def Let_def case_prod_beta create_handler_IMAP4)

lemma try_body_needs_prepare:
  "fst (try_body env) = Normal \<Longrightarrow> fst (prepare_target_mailbox env) = Normal"
  by (simp add: try_body_def Let_def case_prod_beta split: if_splits)

lemma try_body_at_prepare:
  assumes "fst (connect env) = Normal" "fst (login_step env) = Normal"
    and "fst (prepare_target_mailbox env) \<noteq> Normal"
  shows "fst (try_body env) = fst (prepare_target_mailbox env)"
  using assms by (simp add: try_body_def Let_def case_prod_beta)

text \<open>
  Claim C4. On a reply of the server to \<^verbatim>\<open>create\<close>, the folder is ready exactly when
  the status is \<^verbatim>\<open>OK\<close> or the text of the reply data, in lower case, contains
  \<^verbatim>\<open>exists\<close>; on an \<^verbatim>\<open>IMAP4.error\<close> raised by the call, exactly when its text does.
  Otherwise the block ends in \<^verbatim>\<open>sys.exit(1)\<close>. Whenever the folder is not ready the run
  issues no append and counts nothing, and when the run got as far as this block its exit
  status is 1.
\<close>

theorem provisioning_idempotent:
  "(server_create env (quoted (target_mailbox (get_imap_details env))) = Inr (status, d # ds) \<longrightarrow>
      (fst (prepare_target_mailbox env) = Normal
         \<longleftrightarrow> status = ''OK'' \<or> str_in ''exists'' (lower (str_list (d # ds))))
      \<and> (fst (prepare_target_mailbox env) \<noteq> Normal
           \<longrightarrow> fst (prepare_target_mailbox env) = SysExit 1))
   \<and> (server_create env (quoted (target_mailbox (get_imap_details env))) = Inl (IMAP4Error txt) \<longrightarrow>
      (fst (prepare_target_mailbox env) = Normal \<longleftrightarrow> str_in ''exists'' (lower txt))
      \<and> (fst (prepare_target_mailbox env) \<noteq> Normal
           \<longrightarrow> fst (prepare_target_mailbox env) = SysExit 1))
   \<and> (fst (prepare_target_mailbox env) \<noteq> Normal \<longrightarrow>
        append_calls (events (main env)) = [] \<and> uploaded_count (main env) = 0
        \<and> error_count (main env) = 0 \<and> \<not> completed (main env))
   \<and> (mbox_isfile env \<and> all_details (get_imap_details env) \<and> fst (connect env) = Normal
        \<and> fst (login_step env) = Normal \<and> fst (prepare_target_mailbox env) = SysExit 1 \<longrightarrow>
        exit_status (main env) = 1)"
proof -
  have a: "(fst (prepare_target_mailbox env) = Normal
         \<longleftrightarrow> status = ''OK'' \<or> str_in ''exists'' (lower (str_list (d # ds))))
      \<and> (fst (prepare_target_mailbox env) \<noteq> Normal
           \<longrightarrow> fst (prepare_target_mailbox env) = SysExit 1)"
    if "server_create env (quoted (target_mailbox (get_imap_details env))) = Inr (status, d # ds)"
    using prepare_reply [OF that] by simp
  have b: "(fst (prepare_target_mailbox env) = Normal \<longleftrightarrow> str_in ''exists'' (lower txt))
      \<and> (fst (prepare_target_mailbox env) \<noteq> Normal
           \<longrightarrow> fst (prepare_target_mailbox env) = SysExit 1)"
    if "server_create env (quoted (target_mailbox (get_imap_details env))) = Inl (IMAP4Error txt)"
    using prepare_raised [OF that] by simp
  have c: "append_calls (events (main env)) = [] \<and> uploaded_count (main env) = 0
        \<and> error_count (main env) = 0 \<and> \<not> completed (main env)"
    if "fst (prepare_target_mailbox env) \<noteq> Normal"
  proof -
    from that have "fst (try_body env) \<noteq> Normal" using try_body_needs_prepare by blast
    then have "\<not> completed (main env)" by (simp add: main_completed_iff)
    with main_not_completed [OF this] show ?thesis by simp
  qed
  have d: "exit_status (main env) = 1"
    if "mbox_isfile env \<and> all_details (get_imap_details env) \<and> fst (connect env) = Normal
        \<and> fst (login_step env) = Normal \<and> fst (prepare_target_mailbox env) = SysExit 1"
    using that try_body_at_prepare [of env] by (simp add: main_exit_status)
  from a b c d show ?thesis by blast
qed

theorem provisioning_idempotent_witness:
  "server_create exists_env (quoted (target_mailbox (get_imap_details exists_env)))
     = Inr (''NO'', [''[ALREADYEXISTS] Mailbox Exists''])
   \<and> str_in ''exists'' (lower (str_list [''[ALREADYEXISTS] Mailbox Exists'']))
   \<and> fst (prepare_target_mailbox exists_env) = Normal
   \<and> server_create denied_env (quoted (target_mailbox (get_imap_details denied_env)))
     = Inr (''NO'', [''Permission denied''])
   \<and> \<not> str_in ''exists'' (lower (str_list [''Permission denied'']))
   \<and> fst (prepare_target_mailbox denied_env) = SysExit 1
   \<and> append_calls (events (main denied_env)) = []
   \<and> exit_status (main denied_env) = 1"
proof -
  have h1: "server_create exists_env (quoted (target_mailbox (get_imap_details exists_env)))
     = Inr (''NO'', [''[ALREADYEXISTS] Mailbox Exists''])"
    by (simp add: exists_env_def)
  have h2: "str_in ''exists'' (lower (str_list [''[ALREADYEXISTS] Mailbox Exists'']))"
    by code_simp
  have h3: "server_create denied_env (quoted (target_mailbox (get_imap_details denied_env)))
     = Inr (''NO'', [''Permission denied''])"
    by (simp add: denied_env_def)
  have h4: "\<not> str_in ''exists'' (lower (str_list [''Permission denied'']))"
    by code_simp
  have h5: "mbox_isfile denied_env \<and> all_details (get_imap_details denied_env)
            \<and> fst (connect denied_env) = Normal \<and> fst (login_step denied_env) = Normal"
    by code_simp
  from provisioning_idempotent [of exists_env "''NO''" "''[ALREADYEXISTS] Mailbox Exists''" "[]"]
    provisioning_idempotent [of denied_env "''NO''" "''Permission denied''" "[]"]
    h1 h2 h3 h4 h5
  show ?thesis by simp
qed

subsection \<open>What is appended, and in which order\<close>

lemma append_call_of_payload:
  "append_call_of env m = Some c \<Longrightarrow> as_bytes m = Inr (message c)"
  by (auto simp add: append_call_of_def split: sum.splits)

lemma map_filter_payload:
  "map (\<lambda>c. Inr (message c)) (List.map_filter (append_call_of env) msgs)
     = map as_bytes (filter (\<lambda>m. append_call_of env m \<noteq> None) msgs)"
  by (induction msgs) (auto simp add: List.map_filter_simps append_call_of_payload split: option.splits)

lemma map_filter_all:
  "\<forall>m\<in>set msgs. f m \<noteq> None \<Longrightarrow> map Some (List.map_filter f msgs) = map f msgs"
  by (induction msgs) (auto simp add: List.map_filter_simps split: option.splits)

text \<open>
  Claim C6. As stated the claim fails: what is appended is what \<^verbatim>\<open>msg.as_bytes()\<close>
  returns, the parsed message written out again by the \<^verbatim>\<open>email\<close> library, not the bytes
  of the record as stored. Here the record is stored with CRLF line ends and is appended
  with LF line ends.
\<close>

theorem payload_rewritten_counterexample:
  "list_mbox crlf_env = Inr [msg_crlf]
   \<and> stored_bytes msg_crlf = crlf_stored
   \<and> completed (main crlf_env)
   \<and> map message (append_calls (events (main crlf_env))) = [crlf_written]
   \<and> crlf_written \<noteq> crlf_stored"
proof -
  have a: "list_mbox crlf_env = Inr [msg_crlf]" by (simp add: crlf_env_def)
  have b: "stored_bytes msg_crlf = crlf_stored" by (simp add: msg_crlf_def)
  have c: "completed (main crlf_env)" by code_simp
  have d: "map message (append_calls (events (main crlf_env))) = [crlf_written]" by code_simp
  have e: "crlf_written \<noteq> crlf_stored" by (simp add: crlf_written_def crlf_stored_def)
  from a b c d e show ?thesis by blast
qed

text \<open>
  Claim C6. amended. Every append issued for a message carries, unchanged, the bytes that
  \<^verbatim>\<open>msg.as_bytes()\<close> returned for it; the script itself never reads the stored bytes of
  the record, so what it does is the same whatever they are. Over a run whose loop ran to
  its end, the payloads passed to \<^verbatim>\<open>server.append\<close> are, in order, what
  \<^verbatim>\<open>as_bytes()\<close> returned for the messages that could be prepared; a run that stops before
  the loop appends nothing.
\<close>

theorem payload_unmodified:
  "(as_bytes msg = Inr b \<longrightarrow>
      (\<forall>c\<in>set (append_calls (snd (loop_body env tot i msg cnt))). message c = b))
   \<and> loop_body env tot i (msg\<lparr>stored_bytes := r\<rparr>) cnt = loop_body env tot i msg cnt
   \<and> (completed (main env) \<and> list_mbox env = Inr msgs \<longrightarrow>
        map (\<lambda>c. Inr (message c)) (append_calls (events (main env)))
          = map as_bytes (filter (\<lambda>m. append_call_of env m \<noteq> None) msgs))
   \<and> (\<not> completed (main env) \<longrightarrow> append_calls (events (main env)) = [])"
proof -
  have a: "\<forall>c\<in>set (append_calls (snd (loop_body env tot i msg cnt))). message c = b"
    if "as_bytes msg = Inr b"
    using that by (auto simp add: append_calls_loop_body append_call_of_def split: sum.splits)
  have g: "get_message_date env (msg\<lparr>stored_bytes := r\<rparr>) = get_message_date env msg"
    by (simp add: get_message_date_def)
  have s: "loop_body env tot i (msg\<lparr>stored_bytes := r\<rparr>) cnt = loop_body env tot i msg cnt"
    by (simp add: loop_body_def g Let_def case_prod_beta cong: sum.case_cong if_cong)
  have b: "map (\<lambda>c. Inr (message c)) (append_calls (events (main env)))
          = map as_bytes (filter (\<lambda>m. append_call_of env m \<noteq> None) msgs)"
    if "completed (main env)" "list_mbox env = Inr msgs"
    using main_completed [OF that(1)] that(2)
    by (auto simp add: append_calls_upload_loop map_filter_payload)
  have c: "append_calls (events (main env)) = []" if "\<not> completed (main env)"
    using main_not_completed [OF that] by simp
  from a s b c show ?thesis by blast
qed

theorem payload_unmodified_witness:
  "completed (main demo_env) \<and> list_mbox demo_env = Inr demo_msgs
   \<and> map (\<lambda>c. Inr (message c)) (append_calls (events (main demo_env)))
       = [as_bytes msg_dated, as_bytes msg_baddate]
   \<and> map message (append_calls (events (main demo_env))) = [dated_bytes, yesterday_bytes]
   \<and> as_bytes msg_crlf = Inr crlf_written
   \<and> map message (append_calls (snd (loop_body crlf_env 1 0 msg_crlf (0, 0)))) = [crlf_written]
   \<and> loop_body crlf_env 1 0 (msg_crlf\<lparr>stored_bytes := crlf_written\<rparr>) (0, 0)
       = loop_body crlf_env 1 0 msg_crlf (0, 0)"
proof -
  have h1: "completed (main demo_env)" by code_simp
  have h2: "list_mbox demo_env = Inr demo_msgs" by (simp add: demo_env_def)
  have h3: "filter (\<lambda>m. append_call_of demo_env m \<noteq> None) demo_msgs = [msg_dated, msg_baddate]"
    by (simp add: demo_msgs_def append_call_of_def msg_dated_def msg_baddate_def
        msg_unserializable_def get_message_date_def demo_env_def)
  have h4: "as_bytes msg_crlf = Inr crlf_written" by (simp add: msg_crlf_def)
  note t = payload_unmodified [where msg = msg_crlf and b = crlf_written and env = crlf_env
      and tot = 1 and i = 0 and cnt = "(0, 0)" and r = crlf_written and msgs = "[msg_crlf]"]
  from payload_unmodified [where env = demo_env and msgs = demo_msgs and msg = msg_dated
      and b = dated_bytes and tot = 3 and i = 0 and cnt = "(0, 0)" and r = dated_bytes] h1 h2 h3
  have c: "map (\<lambda>c. Inr (message c)) (append_calls (events (main demo_env)))
       = [as_bytes msg_dated, as_bytes msg_baddate]"
    by simp
  have d: "map message (append_calls (events (main demo_env))) = [dated_bytes, yesterday_bytes]"
    by code_simp
  have e: "map message (append_calls (snd (loop_body crlf_env 1 0 msg_crlf (0, 0)))) = [crlf_written]"
    by code_simp
  from t have f: "loop_body crlf_env 1 0 (msg_crlf\<lparr>stored_bytes := crlf_written\<rparr>) (0, 0)
       = loop_body crlf_env 1 0 msg_crlf (0, 0)"
    by blast
  from h1 h2 c d h4 e f show ?thesis by blast
qed

text \<open>
  Claim C7. As stated the claim fails: a message that cannot be serialised is skipped,
  so the appends are not the whole archive. Here the archive has two messages and the run
  issues one append.
\<close>

theorem appends_skip_counterexample:
  "list_mbox skip_env = Inr [msg_unserializable, msg_nodate]
   \<and> completed (main skip_env)
   \<and> append_calls (events (main skip_env))
       = [\<lparr>mailbox = quoted ''Imported_Mbox'', flags = None, date_time = None,
           message = hello_bytes\<rparr>]"
proof -
  have a: "list_mbox skip_env = Inr [msg_unserializable, msg_nodate]"
    by (simp add: skip_env_def)
  have b: "completed (main skip_env)" by code_simp
  have c: "append_calls (events (main skip_env))
       = [\<lparr>mailbox = quoted ''Imported_Mbox'', flags = None, date_time = None,
           message = hello_bytes\<rparr>]" by code_simp
  from a b c show ?thesis by blast
qed

text \<open>
  Claim C7. amended. In a run whose loop ran to its end, the append calls are those of
  the messages that could be prepared (serialised, date looked up), in the order of the
  archive; when every message can be prepared there is one call per message, in that
  order. A run that stops before the loop issues no append.
\<close>

theorem appends_in_source_order:
  "(completed (main env) \<and> list_mbox env = Inr msgs \<longrightarrow>
      append_calls (events (main env)) = List.map_filter (append_call_of env) msgs
      \<and> ((\<forall>m\<in>set msgs. append_call_of env m \<noteq> None) \<longrightarrow>
           map Some (append_calls (events (main env))) = map (append_call_of env) msgs))
   \<and> (\<not> completed (main env) \<longrightarrow> append_calls (events (main env)) = [])"
proof -
  have a: "append_calls (events (main env)) = List.map_filter (append_call_of env) msgs"
    if "completed (main env)" "list_mbox env = Inr msgs"
    using main_completed [OF that(1)] that(2) by (auto simp add: append_calls_upload_loop)
  have c: "append_calls (events (main env)) = []" if "\<not> completed (main env)"
    using main_not_completed [OF that] by simp
  from a c map_filter_all [of msgs "append_call_of env"] show ?thesis by auto
qed

theorem appends_in_source_order_witness:
  "completed (main skip_env) \<and> list_mbox skip_env = Inr [msg_unserializable, msg_nodate]
   \<and> append_calls (events (main skip_env))
       = List.map_filter (append_call_of skip_env) [msg_unserializable, msg_nodate]
   \<and> completed (main reset_env) \<and> list_mbox reset_env = Inr [msg_nodate, msg_dated]
   \<and> append_call_of reset_env msg_nodate \<noteq> None \<and> append_call_of reset_env msg_dated \<noteq> None
   \<and> map Some (append_calls (events (main reset_env)))
       = [append_call_of reset_env msg_nodate, append_call_of reset_env msg_dated]"
proof -
  have a: "list_mbox skip_env = Inr [msg_unserializable, msg_nodate]"
    by (simp add: skip_env_def)
  have b: "completed (main skip_env)" by code_simp
  have c: "list_mbox reset_env = Inr [msg_nodate, msg_dated]"
    by (simp add: reset_env_def)
  have d: "completed (main reset_env)" by code_simp
  have e: "append_call_of reset_env msg_nodate \<noteq> None \<and> append_call_of reset_env msg_dated \<noteq> None"
    by code_simp
  then have e': "\<forall>m\<in>set [msg_nodate, msg_dated]. append_call_of reset_env m \<noteq> None"
    by simp
  from appends_in_source_order [of skip_env "[msg_unserializable, msg_nodate]"] a b
  have c1: "append_calls (events (main skip_env))
       = List.map_filter (append_call_of skip_env) [msg_unserializable, msg_nodate]"
    by blast
  from appends_in_source_order [of reset_env "[msg_nodate, msg_dated]"] c d e'
  have "map Some (append_calls (events (main reset_env)))
       = map (append_call_of reset_env) [msg_nodate, msg_dated]"
    by blast
  then have c2: "map Some (append_calls (events (main reset_env)))
       = [append_call_of reset_env msg_nodate, append_call_of reset_env msg_dated]"
    by simp
  from a b c d e c1 c2 show ?thesis by blast
qed

subsection \<open>The delay between messages\<close>

text \<open>
  Claim C8. The code at an input where the claim fails: the archive holds two messages and
  the first \<^verbatim>\<open>server.append\<close> call raises. The exception leaves the \<^verbatim>\<open>try\<close> block
  before its last statement, the \<^verbatim>\<open>time.sleep\<close> of line 185, so the second append follows
  the failed one with no delay in between; the delay after the second append, which is
  answered, is there.
\<close>

theorem raising_append_skips_delay:
  "list_mbox reset_env = Inr [msg_nodate, msg_dated]
   \<and> server_append reset_env 0
        \<lparr>mailbox = quoted ''Imported_Mbox'', flags = None, date_time = None,
         message = hello_bytes\<rparr> = Inl (OtherException ''connection reset by peer'')
   \<and> pacing_trace (events (main reset_env))
       = [Append \<lparr>mailbox = quoted ''Imported_Mbox'', flags = None, date_time = None,
                  message = hello_bytes\<rparr>,
          Append \<lparr>mailbox = quoted ''Imported_Mbox'', flags = None,
                  date_time = Some (quoted ''01-Jan-2024 10:00:00 +0000''),
                  message = dated_bytes\<rparr>,
          Sleep UPLOAD_DELAY_SECONDS]
   \<and> uploaded_count (main reset_env) = 1 \<and> error_count (main reset_env) = 1"
proof -
  have a: "list_mbox reset_env = Inr [msg_nodate, msg_dated]"
    by (simp add: reset_env_def)
  have b: "server_append reset_env 0
        \<lparr>mailbox = quoted ''Imported_Mbox'', flags = None, date_time = None,
         message = hello_bytes\<rparr> = Inl (OtherException ''connection reset by peer'')"
    by (simp add: reset_env_def)
  have c: "pacing_trace (events (main reset_env))
       = [Append \<lparr>mailbox = quoted ''Imported_Mbox'', flags = None, date_time = None,
                  message = hello_bytes\<rparr>,
          Append \<lparr>mailbox = quoted ''Imported_Mbox'', flags = None,
                  date_time = Some (quoted ''01-Jan-2024 10:00:00 +0000''),
                  message = dated_bytes\<rparr>,
          Sleep UPLOAD_DELAY_SECONDS]" by code_simp
  have d: "uploaded_count (main reset_env) = 1 \<and> error_count (main reset_env) = 1"
    by code_simp
  from a b c d show ?thesis by blast
qed

subsection \<open>Logging out\<close>

lemma get_message_date_logout:
  "get_message_date (env\<lparr>server_logout := r\<rparr>) msg = get_message_date env msg"
  by (simp add: get_message_date_def cong: sum.case_cong option.case_cong if_cong)

lemma loop_body_logout:
  "loop_body (env\<lparr>server_logout := r\<rparr>) tot i msg cnt = loop_body env tot i msg cnt"
  by (simp add: loop_body_def get_message_date_logout Let_def case_prod_beta
      cong: sum.case_cong if_cong)

lemma upload_loop_logout:
  "upload_loop (env\<lparr>server_logout := r\<rparr>) tot i msgs cnt = upload_loop env tot i msgs cnt"
  by (induction msgs arbitrary: i cnt) (simp_all add: loop_body_logout)

lemma try_body_logout: "try_body (env\<lparr>server_logout := r\<rparr>) = try_body env"
  by (simp add: try_body_def connect_def login_step_def prepare_target_mailbox_def
      upload_messages_def upload_loop_logout Let_def case_prod_beta
      cong: sum.case_cong option.case_cong if_cong)

lemma try_body_server:
  "server (snd (try_body env)) \<longleftrightarrow> fst (connect env) = Normal"
  by (simp add: try_body_def Let_def case_prod_beta)

text \<open>
  Claim C9. Once the connection object exists, every run ends with the logout call,
  its outcome and the last line, whatever happened before; what the logout call raises
  changes nothing before it in the run, neither the exit status, nor the counters, nor
  whether the summary was printed.
\<close>

theorem logout_always_attempted:
  assumes "mbox_isfile env" and "all_details (get_imap_details env)"
    and "fst (connect env) = Normal"
  shows "Logout \<in> set (events (main env))
    \<and> (\<exists>pre. \<forall>r. events (main (env\<lparr>server_logout := r\<rparr>))
           = pre @ [Print LoggingOut, Logout]
             @ (case r of None \<Rightarrow> [Print LogoutOK] | Some x \<Rightarrow> [Print (LogoutError x)])
             @ [Print ScriptFinished])
    \<and> (\<forall>r. exit_status (main (env\<lparr>server_logout := r\<rparr>)) = exit_status (main env)
          \<and> total_messages (main (env\<lparr>server_logout := r\<rparr>)) = total_messages (main env)
          \<and> uploaded_count (main (env\<lparr>server_logout := r\<rparr>)) = uploaded_count (main env)
          \<and> error_count (main (env\<lparr>server_logout := r\<rparr>)) = error_count (main env)
          \<and> completed (main (env\<lparr>server_logout := r\<rparr>)) = completed (main env))"
proof -
  let ?pre = "banner @ events (snd (try_body env)) @ snd (handlers (fst (try_body env)))"
  have ev: "events (main (env\<lparr>server_logout := r\<rparr>))
           = ?pre @ [Print LoggingOut, Logout]
             @ (case r of None \<Rightarrow> [Print LogoutOK] | Some x \<Rightarrow> [Print (LogoutError x)])
             @ [Print ScriptFinished]" for r
    using assms
    by (simp add: main_def case_prod_beta Let_def try_body_logout try_body_server
        finally_block_def)
  have "Logout \<in> set (events (main (env\<lparr>server_logout := server_logout env\<rparr>)))"
    unfolding ev by simp
  then have a: "Logout \<in> set (events (main env))" by simp
  have c: "exit_status (main (env\<lparr>server_logout := r\<rparr>)) = exit_status (main env)
          \<and> total_messages (main (env\<lparr>server_logout := r\<rparr>)) = total_messages (main env)
          \<and> uploaded_count (main (env\<lparr>server_logout := r\<rparr>)) = uploaded_count (main env)
          \<and> error_count (main (env\<lparr>server_logout := r\<rparr>)) = error_count (main env)
          \<and> completed (main (env\<lparr>server_logout := r\<rparr>)) = completed (main env)" for r
    by (simp add: main_completed_iff main_exit_status try_body_logout)
       (simp add: main_def case_prod_beta Let_def try_body_logout)
  from a ev c show ?thesis by blast
qed

theorem logout_always_attempted_witness:
  "mbox_isfile denied_env \<and> all_details (get_imap_details denied_env)
   \<and> fst (connect denied_env) = Normal
   \<and> exit_status (main denied_env) = 1
   \<and> Logout \<in> set (events (main denied_env))
   \<and> exit_status (main (denied_env\<lparr>server_logout := Some (OtherException ''socket closed'')\<rparr>)) = 1"
proof -
  have h1: "mbox_isfile denied_env" by code_simp
  have h2: "all_details (get_imap_details denied_env)" by code_simp
  have h3: "fst (connect denied_env) = Normal" by code_simp
  have h4: "exit_status (main denied_env) = 1" by code_simp
  from logout_always_attempted [OF h1 h2 h3] h1 h2 h3 h4 show ?thesis by simp
qed

subsection \<open>The exit status\<close>

text \<open>
  Claim C5. The code at the input where the claim fails: the archive is a file, the
  connection details are complete, and the host name does not resolve. The handler of line
  199 prints the error and \<^verbatim>\<open>main\<close> returns: the exit status is 0, where the claim asks
  for a non-zero one.
\<close>

theorem unresolvable_host_exit_status:
  "mbox_isfile gaierror_env \<and> all_details (get_imap_details gaierror_env)
   \<and> IMAP4_SSL gaierror_env ''imap.example.org'' 993
       = Some (Gaierror ''[Errno -2] Name or service not known'')
   \<and> exit_status (main gaierror_env) = 0
   \<and> uploaded_count (main gaierror_env) = 0 \<and> error_count (main gaierror_env) = 0
   \<and> events (main gaierror_env)
       = banner @ [Connect True ''imap.example.org'' 993,
                   Print (HostUnresolved (Gaierror ''[Errno -2] Name or service not known'')),
                   Print ScriptFinished]"
proof -
  have a: "mbox_isfile gaierror_env \<and> all_details (get_imap_details gaierror_env)" by code_simp
  have b: "IMAP4_SSL gaierror_env ''imap.example.org'' 993
       = Some (Gaierror ''[Errno -2] Name or service not known'')"
    by (simp add: gaierror_env_def)
  have c: "exit_status (main gaierror_env) = 0" by code_simp
  have c': "uploaded_count (main gaierror_env) = 0 \<and> error_count (main gaierror_env) = 0"
    by code_simp
  have d: "events (main gaierror_env)
       = banner @ [Connect True ''imap.example.org'' 993,
                   Print (HostUnresolved (Gaierror ''[Errno -2] Name or service not known'')),
                   Print ScriptFinished]" by code_simp
  from a b c c' d show ?thesis by blast
qed

end
